theory Spec2Isabelle
  imports Complex_Main
begin

section \<open>Host values\<close>

text \<open>
  The renderer is JavaScript. Its numbers are modelled as the reals extended by the three
  non-finite values of the host (\<open>Infinity\<close>, \<open>-Infinity\<close>, \<open>NaN\<close>). Rounding is not
  modelled, and a zero is always the positive zero. Strings are byte strings (UTF-8), so
  a literal of the source outside ASCII is written byte by byte.
\<close>

datatype jsnum = Fin real | PInf | NInf | NaN

fun is_finite :: "jsnum \<Rightarrow> bool" where
  "is_finite (Fin _) = True"
| "is_finite _ = False"

fun is_nan :: "jsnum \<Rightarrow> bool" where
  "is_nan NaN = True"
| "is_nan _ = False"

text \<open>Truthiness of a number: \<open>0\<close> and \<open>NaN\<close> are falsy.\<close>

fun num_truthy :: "jsnum \<Rightarrow> bool" where
  "num_truthy (Fin r) = (r \<noteq> 0)"
| "num_truthy NaN = False"
| "num_truthy _ = True"

fun jneg :: "jsnum \<Rightarrow> jsnum" where
  "jneg (Fin r) = Fin (- r)"
| "jneg PInf = NInf"
| "jneg NInf = PInf"
| "jneg NaN = NaN"

fun jadd :: "jsnum \<Rightarrow> jsnum \<Rightarrow> jsnum" where
  "jadd (Fin a) (Fin b) = Fin (a + b)"
| "jadd NaN _ = NaN"
| "jadd _ NaN = NaN"
| "jadd PInf NInf = NaN"
| "jadd NInf PInf = NaN"
| "jadd PInf _ = PInf"
| "jadd _ PInf = PInf"
| "jadd NInf _ = NInf"
| "jadd _ NInf = NInf"

definition jsub :: "jsnum \<Rightarrow> jsnum \<Rightarrow> jsnum" where
  "jsub a b = jadd a (jneg b)"

text \<open>The sign of an infinite product or quotient: \<open>True\<close> for a positive result.\<close>

definition inf_of_sign :: "bool \<Rightarrow> jsnum" where
  "inf_of_sign pos = (if pos then PInf else NInf)"

fun jmul :: "jsnum \<Rightarrow> jsnum \<Rightarrow> jsnum" where
  "jmul (Fin a) (Fin b) = Fin (a * b)"
| "jmul NaN _ = NaN"
| "jmul _ NaN = NaN"
| "jmul (Fin a) PInf = (if a = 0 then NaN else inf_of_sign (0 < a))"
| "jmul (Fin a) NInf = (if a = 0 then NaN else inf_of_sign (a < 0))"
| "jmul PInf (Fin b) = (if b = 0 then NaN else inf_of_sign (0 < b))"
| "jmul NInf (Fin b) = (if b = 0 then NaN else inf_of_sign (b < 0))"
| "jmul PInf PInf = PInf"
| "jmul NInf NInf = PInf"
| "jmul PInf NInf = NInf"
| "jmul NInf PInf = NInf"

fun jdiv :: "jsnum \<Rightarrow> jsnum \<Rightarrow> jsnum" where
  "jdiv (Fin a) (Fin b) =
     (if b = 0 then (if a = 0 then NaN else inf_of_sign (0 < a)) else Fin (a / b))"
| "jdiv NaN _ = NaN"
| "jdiv _ NaN = NaN"
| "jdiv (Fin a) _ = Fin 0"
| "jdiv PInf (Fin b) = inf_of_sign (0 \<le> b)"
| "jdiv NInf (Fin b) = inf_of_sign (b < 0)"
| "jdiv _ _ = NaN"

text \<open>Comparisons: every comparison with \<open>NaN\<close> is false.\<close>

fun jlt :: "jsnum \<Rightarrow> jsnum \<Rightarrow> bool" where
  "jlt (Fin a) (Fin b) = (a < b)"
| "jlt NaN _ = False"
| "jlt _ NaN = False"
| "jlt _ NInf = False"
| "jlt PInf _ = False"
| "jlt _ _ = True"

definition jgt :: "jsnum \<Rightarrow> jsnum \<Rightarrow> bool" where
  "jgt a b = jlt b a"

fun jle :: "jsnum \<Rightarrow> jsnum \<Rightarrow> bool" where
  "jle (Fin a) (Fin b) = (a \<le> b)"
| "jle NaN _ = False"
| "jle _ NaN = False"
| "jle NInf _ = True"
| "jle _ PInf = True"
| "jle _ _ = False"

definition jge :: "jsnum \<Rightarrow> jsnum \<Rightarrow> bool" where
  "jge a b = jle b a"

text \<open>\<open>Math.min\<close> and \<open>Math.max\<close> of two numbers, and of a spread list.\<close>

definition jmin :: "jsnum \<Rightarrow> jsnum \<Rightarrow> jsnum" where
  "jmin a b = (if is_nan a \<or> is_nan b then NaN else if jle a b then a else b)"

definition jmax :: "jsnum \<Rightarrow> jsnum \<Rightarrow> jsnum" where
  "jmax a b = (if is_nan a \<or> is_nan b then NaN else if jle a b then b else a)"

definition math_min :: "jsnum list \<Rightarrow> jsnum" where
  "math_min xs = foldl jmin PInf xs"

definition math_max :: "jsnum list \<Rightarrow> jsnum" where
  "math_max xs = foldl jmax NInf xs"

fun math_abs :: "jsnum \<Rightarrow> jsnum" where
  "math_abs (Fin r) = Fin \<bar>r\<bar>"
| "math_abs NaN = NaN"
| "math_abs _ = PInf"

fun math_sqrt :: "jsnum \<Rightarrow> jsnum" where
  "math_sqrt (Fin r) = (if r < 0 then NaN else Fin (sqrt r))"
| "math_sqrt PInf = PInf"
| "math_sqrt _ = NaN"

fun math_cos :: "jsnum \<Rightarrow> jsnum" where
  "math_cos (Fin r) = Fin (cos r)"
| "math_cos _ = NaN"

fun math_sin :: "jsnum \<Rightarrow> jsnum" where
  "math_sin (Fin r) = Fin (sin r)"
| "math_sin _ = NaN"

text \<open>\<open>Math.atan2(y, x)\<close> on finite arguments, and the host's table at the infinities.\<close>

definition atan2 :: "real \<Rightarrow> real \<Rightarrow> real" where
  "atan2 y x =
     (if 0 < x then arctan (y / x)
      else if x < 0 then (if 0 \<le> y then arctan (y / x) + pi else arctan (y / x) - pi)
      else if 0 < y then pi / 2 else if y < 0 then - (pi / 2) else 0)"

fun math_atan2 :: "jsnum \<Rightarrow> jsnum \<Rightarrow> jsnum" where
  "math_atan2 (Fin y) (Fin x) = Fin (atan2 y x)"
| "math_atan2 NaN _ = NaN"
| "math_atan2 _ NaN = NaN"
| "math_atan2 (Fin y) PInf = Fin 0"
| "math_atan2 (Fin y) NInf = Fin (if 0 \<le> y then pi else - pi)"
| "math_atan2 PInf (Fin x) = Fin (pi / 2)"
| "math_atan2 NInf (Fin x) = Fin (- (pi / 2))"
| "math_atan2 PInf PInf = Fin (pi / 4)"
| "math_atan2 NInf PInf = Fin (- (pi / 4))"
| "math_atan2 PInf NInf = Fin (3 * pi / 4)"
| "math_atan2 NInf NInf = Fin (- (3 * pi / 4))"

text \<open>\<open>a || d\<close> on numbers: the default replaces a falsy left operand.\<close>

definition num_or :: "jsnum \<Rightarrow> jsnum \<Rightarrow> jsnum" where
  "num_or a d = (if num_truthy a then a else d)"

text \<open>
  An optional numeric field of a parsed specification: \<open>None\<close> is an absent field
  (\<open>undefined\<close>). \<open>field || d\<close> takes the default for an absent field and for zero.
\<close>

definition field_or :: "real option \<Rightarrow> real \<Rightarrow> real" where
  "field_or v d = (case v of None \<Rightarrow> d | Some r \<Rightarrow> if r = 0 then d else r)"

section \<open>The expression evaluator of the function-graph renderer\<close>

text \<open>
  \<open>evalExpr(expr, xVal)\<close> rewrites the expression text by ten global regular-expression
  replacements and hands \<open>'return ' + safeExpr\<close> to the host's \<open>Function\<close> constructor.
  The text rewriting is modelled here; what the host does with the resulting text is
  outside the model.
\<close>

text \<open>A word character of a regular expression: \<open>[A-Za-z0-9_]\<close>.\<close>

definition is_word_char :: "char \<Rightarrow> bool" where
  "is_word_char c =
     (let n = (of_char c :: nat) in
        (97 \<le> n \<and> n \<le> 122) \<or> (65 \<le> n \<and> n \<le> 90) \<or> (48 \<le> n \<and> n \<le> 57) \<or> n = 95)"

text \<open>Folding an ASCII capital to its small letter, for the \<open>i\<close> flag.\<close>

definition lower_char :: "char \<Rightarrow> char" where
  "lower_char c =
     (let n = (of_char c :: nat) in if 65 \<le> n \<and> n \<le> 90 then char_of (n + 32) else c)"

definition char_matches :: "bool \<Rightarrow> char \<Rightarrow> char \<Rightarrow> bool" where
  "char_matches ci p c = (if ci then lower_char p = lower_char c else p = c)"

text \<open>
  \<open>word_at ci pat s\<close>: the word \<open>pat\<close> stands at the start of \<open>s\<close> and is followed by
  a word boundary (the end of the text or a character that is not a word character).
\<close>

fun word_at :: "bool \<Rightarrow> string \<Rightarrow> string \<Rightarrow> bool" where
  "word_at ci [] [] = True"
| "word_at ci [] (c # cs) = (\<not> is_word_char c)"
| "word_at ci (p # ps) [] = False"
| "word_at ci (p # ps) (c # cs) = (char_matches ci p c \<and> word_at ci ps cs)"

text \<open>
  \<open>s.replace(/\bpat\b/g, rep)\<close> for a pattern \<open>pat\<close> made of word characters:
  \<open>prev\<close> tells whether the character before the current position is a word character.
  A match is replaced and the scan goes on behind it.
\<close>

fun replace_word :: "bool \<Rightarrow> string \<Rightarrow> string \<Rightarrow> bool \<Rightarrow> string \<Rightarrow> string" where
  "replace_word ci pat rep prev [] = []"
| "replace_word ci pat rep prev (c # cs) =
     (if \<not> prev \<and> word_at ci pat (c # cs)
      then rep @ replace_word ci pat rep True (drop (length pat - 1) cs)
      else c # replace_word ci pat rep (is_word_char c) cs)"

text \<open>\<open>s.replace(/\^/g, '**')\<close>.\<close>

definition replace_caret :: "string \<Rightarrow> string" where
  "replace_caret s = concat (map (\<lambda>c. if c = CHR ''^'' then ''**'' else [c]) s)"

definition safeExpr :: "string \<Rightarrow> string" where
  "safeExpr expr =
     replace_caret
      (replace_word True ''pi'' ''Math.PI'' False
      (replace_word False ''exp'' ''Math.exp'' False
      (replace_word False ''log'' ''Math.log10'' False
      (replace_word False ''ln'' ''Math.log'' False
      (replace_word False ''sqrt'' ''Math.sqrt'' False
      (replace_word False ''abs'' ''Math.abs'' False
      (replace_word False ''tan'' ''Math.tan'' False
      (replace_word False ''cos'' ''Math.cos'' False
      (replace_word False ''sin'' ''Math.sin'' False expr)))))))))"

text \<open>The body text given to \<open>new Function('x', ...)\<close>.\<close>

definition function_body :: "string \<Rightarrow> string" where
  "function_body expr = ''return '' @ safeExpr expr"

text \<open>
  The identifiers of a program text: the maximal runs of word characters that do not
  start with a digit.
\<close>

fun words_of :: "string \<Rightarrow> string \<Rightarrow> string list" where
  "words_of acc [] = (if acc = [] then [] else [rev acc])"
| "words_of acc (c # cs) =
     (if is_word_char c then words_of (c # acc) cs
      else (if acc = [] then [] else [rev acc]) @ words_of [] cs)"

definition is_digit :: "char \<Rightarrow> bool" where
  "is_digit c = (let n = (of_char c :: nat) in 48 \<le> n \<and> n \<le> 57)"

definition identifiers :: "string \<Rightarrow> string list" where
  "identifiers s = filter (\<lambda>w. \<not> is_digit (hd w)) (words_of [] s)"

text \<open>
  The names the rewritten text of a well-formed expression is made of: the keyword
  \<open>return\<close>, the bound variable, and the host's numeric library with the members the
  vocabulary is rewritten to.
\<close>

definition vocabulary :: "string list" where
  "vocabulary = [''return'', ''x'', ''Math'', ''sin'', ''cos'', ''tan'', ''abs'', ''sqrt'',
     ''log'', ''log10'', ''exp'', ''PI'']"

definition only_vocabulary :: "string \<Rightarrow> bool" where
  "only_vocabulary body = list_all (\<lambda>w. w \<in> set vocabulary) (identifiers body)"

section \<open>The output: vector primitives and document nodes\<close>

text \<open>
  A path is the list of its drawing commands (the source builds the text of the \<open>d\<close>
  attribute from the same numbers). An arc command keeps both radii, the large-arc flag,
  the sweep flag and the end point; its rotation is always \<open>0\<close>. Of the presentation
  options only the dash flag of a line is kept; colours, widths and fonts are left out.
\<close>

datatype pathcmd =
    MoveTo jsnum jsnum
  | LineTo jsnum jsnum
  | QuadTo jsnum jsnum jsnum jsnum
  | ArcTo jsnum jsnum bool bool jsnum jsnum

datatype prim =
    Marker string
  | Rect jsnum jsnum jsnum jsnum
  | Line jsnum jsnum jsnum jsnum bool
  | Circle jsnum jsnum jsnum
  | Polygon "(jsnum \<times> jsnum) list"
  | Path "pathcmd list"
  | Text jsnum jsnum string

text \<open>
  The nodes a container can hold: the root of a drawing with its width, height and
  children; the bordered box of \<open>renderError\<close> with its text; the box the batch driver
  writes when processing fails; the wrapper of the molecule renderer; a canvas (shown or
  hidden, blank or painted with a notation); a box of plain text.
\<close>

datatype node =
    Svg real real "prim list"
  | ErrorDiv string
  | FailureDiv
  | Wrapper "node list"
  | Canvas bool "string option"
  | TextDiv string

datatype js_error = TypeError | SyntaxError | OtherError

text \<open>
  What a call of a renderer does: it returns or throws, and either way leaves the
  children of its container in some state.
\<close>

datatype outcome = Returned "node list" | Threw js_error "node list"

text \<open>The warning sign (code point 26A0) and a space, the prefix of every error box.\<close>

definition warning_prefix :: string where
  "warning_prefix = [CHR 0xE2, CHR 0x9A, CHR 0xA0, CHR '' '']"

definition renderError :: "string \<Rightarrow> node list \<Rightarrow> node list" where
  "renderError msg container = container @ [ErrorDiv (warning_prefix @ msg)]"

section \<open>The geometry renderer\<close>

record point =
  pid :: string
  px :: real
  py :: real

text \<open>
  The declared value of an angle is optional, and numeric or symbolic: absent, a string
  or a number of the parsed specification.
\<close>

datatype angle_value = NoValue | StrValue string | NumValue real

record angle =
  vertex :: string
  avalue :: angle_value
  mark :: bool

record circle =
  center :: string
  radius :: real

record auxline =
  afrom :: string
  ato :: string
  alabel :: string

record edgelabel =
  lfrom :: string
  lto :: string
  ltext :: string

record geometry =
  points :: "point list"
  segments :: "(string \<times> string) list"
  angles :: "angle list"
  labels :: "edgelabel list"
  circles :: "circle list"
  auxiliary :: "auxline list"

text \<open>
  \<open>ptMap\<close> is a plain object of the host filled by \<open>ptMap[p.id] = p\<close>, so a lookup that
  finds no own property goes on along the prototype chain. The names every plain object
  inherits are listed below; an assignment to the key \<open>__proto__\<close> does not create a
  property but makes the assigned point the prototype of the map, whose fields \<open>id\<close>,
  \<open>x\<close> and \<open>y\<close> are then found by a lookup as well.
\<close>

definition object_prototype_keys :: "string list" where
  "object_prototype_keys = [''constructor'', ''__defineGetter__'', ''__defineSetter__'',
     ''hasOwnProperty'', ''__lookupGetter__'', ''__lookupSetter__'', ''isPrototypeOf'',
     ''propertyIsEnumerable'', ''toString'', ''valueOf'', ''__proto__'', ''toLocaleString'']"

record ptmap =
  own :: "(string \<times> point) list"
  proto :: "point option"

definition ptmap_empty :: ptmap where
  "ptmap_empty = \<lparr>own = [], proto = None\<rparr>"

definition ptmap_set :: "ptmap \<Rightarrow> point \<Rightarrow> ptmap" where
  "ptmap_set m p =
     (if pid p = ''__proto__'' then m\<lparr>proto := Some p\<rparr> else m\<lparr>own := (pid p, p) # own m\<rparr>)"

definition ptmap_of :: "point list \<Rightarrow> ptmap" where
  "ptmap_of ps = foldl ptmap_set ptmap_empty ps"

text \<open>
  The result of \<open>ptMap[k]\<close>: \<open>undefined\<close>, a declared point, or an inherited value that
  is no point (a function, the prototype object, a string or a number), of which only the
  truthiness matters: its fields \<open>x\<close> and \<open>y\<close> are \<open>undefined\<close>.
\<close>

datatype lookup = Undefined | Own point | Inherited bool

definition ptmap_get :: "ptmap \<Rightarrow> string \<Rightarrow> lookup" where
  "ptmap_get m k =
     (case map_of (own m) k of
        Some p \<Rightarrow> Own p
      | None \<Rightarrow>
         (case proto m of
            Some q \<Rightarrow>
              if k = ''__proto__'' then Own q
              else if k = ''id'' then Inherited (pid q \<noteq> [])
              else if k = ''x'' then Inherited (px q \<noteq> 0)
              else if k = ''y'' then Inherited (py q \<noteq> 0)
              else if k \<in> set object_prototype_keys then Inherited True
              else Undefined
          | None \<Rightarrow> if k \<in> set object_prototype_keys then Inherited True else Undefined))"

fun truthy :: "lookup \<Rightarrow> bool" where
  "truthy Undefined = False"
| "truthy (Own p) = True"
| "truthy (Inherited b) = b"

text \<open>
  The fields \<open>.x\<close> and \<open>.y\<close> of a lookup result, as they enter arithmetic. The source
  reads them of truthy results only.
\<close>

fun lx :: "lookup \<Rightarrow> jsnum" where
  "lx (Own p) = Fin (px p)"
| "lx _ = NaN"

fun ly :: "lookup \<Rightarrow> jsnum" where
  "ly (Own p) = Fin (py p)"
| "ly _ = NaN"

text \<open>The bounding box and the scale of a geometry drawing (canvas 360 by 280, padding 40).\<close>

record viewport =
  minX :: jsnum
  maxX :: jsnum
  minY :: jsnum
  maxY :: jsnum
  rangeX :: jsnum
  rangeY :: jsnum
  scale :: jsnum

definition circle_extent :: "(lookup \<Rightarrow> jsnum) \<Rightarrow> ptmap \<Rightarrow> circle \<Rightarrow> jsnum list" where
  "circle_extent coord m c =
     (let center = ptmap_get m (center c) in
      if truthy center
      then [jsub (coord center) (Fin (radius c)), jadd (coord center) (Fin (radius c))]
      else [])"

definition geometry_viewport :: "geometry \<Rightarrow> viewport" where
  "geometry_viewport d =
     (let m = ptmap_of (points d);
          allX0 = map (\<lambda>p. Fin (px p)) (points d) @ concat (map (circle_extent lx m) (circles d));
          allY0 = map (\<lambda>p. Fin (py p)) (points d) @ concat (map (circle_extent ly m) (circles d));
          allX = (if length allX0 = 0 then [Fin 0, Fin 4] else allX0);
          allY = (if length allX0 = 0 then [Fin 0, Fin 3] else allY0);
          mnX = math_min allX; mxX = math_max allX;
          mnY = math_min allY; mxY = math_max allY;
          rX = num_or (jsub mxX mnX) (Fin 4);
          rY = num_or (jsub mxY mnY) (Fin 3)
      in \<lparr>minX = mnX, maxX = mxX, minY = mnY, maxY = mxY, rangeX = rX, rangeY = rY,
          scale = jmin (jdiv (Fin (360 - 2 * 40)) rX) (jdiv (Fin (280 - 2 * 40)) rY)\<rparr>)"

definition geo_tx :: "viewport \<Rightarrow> jsnum \<Rightarrow> jsnum" where
  "geo_tx v x =
     jadd (jadd (Fin 40) (jmul (jsub x (minX v)) (scale v)))
          (jdiv (jsub (Fin (360 - 2 * 40)) (jmul (rangeX v) (scale v))) (Fin 2))"

definition geo_ty :: "viewport \<Rightarrow> jsnum \<Rightarrow> jsnum" where
  "geo_ty v y =
     jsub (jsub (Fin (280 - 40)) (jmul (jsub y (minY v)) (scale v)))
          (jdiv (jsub (Fin (280 - 2 * 40)) (jmul (rangeY v) (scale v))) (Fin 2))"

definition midpoint :: "jsnum \<Rightarrow> jsnum \<Rightarrow> jsnum \<Rightarrow> jsnum \<Rightarrow> jsnum \<times> jsnum" where
  "midpoint x1 y1 x2 y2 = (jdiv (jadd x1 x2) (Fin 2), jdiv (jadd y1 y2) (Fin 2))"

text \<open>Circles, auxiliary (dashed) lines and segments: an element is left out when a lookup
  of one of its point ids is falsy.\<close>

definition circle_prims :: "viewport \<Rightarrow> ptmap \<Rightarrow> circle \<Rightarrow> prim list" where
  "circle_prims v m c =
     (let center = ptmap_get m (center c) in
      if \<not> truthy center then []
      else [Circle (geo_tx v (lx center)) (geo_ty v (ly center)) (jmul (Fin (radius c)) (scale v))])"

definition aux_prims :: "viewport \<Rightarrow> ptmap \<Rightarrow> auxline \<Rightarrow> prim list" where
  "aux_prims v m a =
     (let p1 = ptmap_get m (afrom a); p2 = ptmap_get m (ato a) in
      if \<not> (truthy p1 \<and> truthy p2) then []
      else Line (geo_tx v (lx p1)) (geo_ty v (ly p1)) (geo_tx v (lx p2)) (geo_ty v (ly p2)) True
         # (if alabel a \<noteq> []
            then (let (mx, my) = midpoint (geo_tx v (lx p1)) (geo_ty v (ly p1))
                                          (geo_tx v (lx p2)) (geo_ty v (ly p2))
                  in [Text (jadd mx (Fin 8)) my (alabel a)])
            else []))"

definition segment_prims :: "viewport \<Rightarrow> ptmap \<Rightarrow> string \<times> string \<Rightarrow> prim list" where
  "segment_prims v m seg =
     (let p1 = ptmap_get m (fst seg); p2 = ptmap_get m (snd seg) in
      if \<not> (truthy p1 \<and> truthy p2) then []
      else [Line (geo_tx v (lx p1)) (geo_ty v (ly p1)) (geo_tx v (lx p2)) (geo_ty v (ly p2)) False])"

text \<open>
  The points joined to a vertex by a segment or an auxiliary line, in the order the
  source collects them.
\<close>

definition connPts :: "ptmap \<Rightarrow> (string \<times> string) list \<Rightarrow> auxline list \<Rightarrow> string \<Rightarrow> lookup list" where
  "connPts m segs auxs vtx =
     concat (map (\<lambda>seg.
        (if fst seg = vtx \<and> truthy (ptmap_get m (snd seg)) then [ptmap_get m (snd seg)] else [])
      @ (if snd seg = vtx \<and> truthy (ptmap_get m (fst seg)) then [ptmap_get m (fst seg)] else [])) segs)
   @ concat (map (\<lambda>aux.
        (if afrom aux = vtx \<and> truthy (ptmap_get m (ato aux)) then [ptmap_get m (ato aux)] else [])
      @ (if ato aux = vtx \<and> truthy (ptmap_get m (afrom aux)) then [ptmap_get m (afrom aux)] else [])) auxs)"

text \<open>\<open>s.includes(pat)\<close>: the text \<open>pat\<close> occurs in \<open>s\<close>.\<close>

fun starts_with :: "string \<Rightarrow> string \<Rightarrow> bool" where
  "starts_with [] s = True"
| "starts_with (p # ps) [] = False"
| "starts_with (p # ps) (c # cs) = (p = c \<and> starts_with ps cs)"

fun str_includes :: "string \<Rightarrow> string \<Rightarrow> bool" where
  "str_includes pat [] = (pat = [])"
| "str_includes pat (c # cs) = (starts_with pat (c # cs) \<or> str_includes pat cs)"

text \<open>
  \<open>a.value && (a.value.includes("90") || a.value === "direct_angle")\<close>. A number has
  no method \<open>includes\<close>: for a truthy numeric value the call throws a \<open>TypeError\<close>.
\<close>

definition isRight :: "angle_value \<Rightarrow> js_error + bool" where
  "isRight val =
     (case val of
        NoValue \<Rightarrow> Inr False
      | StrValue s \<Rightarrow> Inr (s \<noteq> [] \<and> (str_includes ''90'' s \<or> s = ''direct_angle''))
      | NumValue n \<Rightarrow> if n = 0 then Inr False else Inl TypeError)"

text \<open>The corner bracket of a right angle: a path of two straight strokes, radius 14.\<close>

definition bracket_glyph :: "viewport \<Rightarrow> jsnum \<Rightarrow> jsnum \<Rightarrow> lookup \<Rightarrow> lookup \<Rightarrow> prim" where
  "bracket_glyph v vx vy c0 c1 =
     (let dx1 = jsub (geo_tx v (lx c0)) vx; dy1 = jsub (geo_ty v (ly c0)) vy;
          dx2 = jsub (geo_tx v (lx c1)) vx; dy2 = jsub (geo_ty v (ly c1)) vy;
          len1 = num_or (math_sqrt (jadd (jmul dx1 dx1) (jmul dy1 dy1))) (Fin 1);
          len2 = num_or (math_sqrt (jadd (jmul dx2 dx2) (jmul dy2 dy2))) (Fin 1);
          ux1 = jmul (jdiv dx1 len1) (Fin 14); uy1 = jmul (jdiv dy1 len1) (Fin 14);
          ux2 = jmul (jdiv dx2 len2) (Fin 14); uy2 = jmul (jdiv dy2 len2) (Fin 14)
      in Path [MoveTo (jadd vx ux1) (jadd vy uy1),
               LineTo (jadd (jadd vx ux1) ux2) (jadd (jadd vy uy1) uy2),
               LineTo (jadd vx ux2) (jadd vy uy2)])"

text \<open>The circular arc between the bearings of the first two adjacent points, radius 20.\<close>

definition arc_glyph :: "viewport \<Rightarrow> jsnum \<Rightarrow> jsnum \<Rightarrow> lookup \<Rightarrow> lookup \<Rightarrow> prim" where
  "arc_glyph v vx vy c0 c1 =
     (let ang1 = math_atan2 (jsub (geo_ty v (ly c0)) vy) (jsub (geo_tx v (lx c0)) vx);
          ang2 = math_atan2 (jsub (geo_ty v (ly c1)) vy) (jsub (geo_tx v (lx c1)) vx);
          sA = jmin ang1 ang2; eA = jmax ang1 ang2;
          sx = jadd vx (jmul (Fin 20) (math_cos sA)); sy = jadd vy (jmul (Fin 20) (math_sin sA));
          ex = jadd vx (jmul (Fin 20) (math_cos eA)); ey = jadd vy (jmul (Fin 20) (math_sin eA))
      in Path [MoveTo sx sy, ArcTo (Fin 20) (Fin 20) (jgt (jsub eA sA) (Fin pi)) True ex ey])"

definition value_label :: "viewport \<Rightarrow> jsnum \<Rightarrow> jsnum \<Rightarrow> lookup \<Rightarrow> lookup \<Rightarrow> string \<Rightarrow> prim" where
  "value_label v vx vy c0 c1 s =
     (let ang1 = math_atan2 (jsub (geo_ty v (ly c0)) vy) (jsub (geo_tx v (lx c0)) vx);
          ang2 = math_atan2 (jsub (geo_ty v (ly c1)) vy) (jsub (geo_tx v (lx c1)) vx);
          mA = jdiv (jadd ang1 ang2) (Fin 2)
      in Text (jadd vx (jmul (Fin 30) (math_cos mA))) (jadd vy (jmul (Fin 30) (math_sin mA))) s)"

text \<open>
  One pass of the loop over the angles. It draws nothing for a vertex that does not
  resolve or has fewer than two adjacent points; otherwise it computes \<open>isRight\<close>
  (which may throw), then the glyph when \<open>mark\<close> is set, then the text of the value.
\<close>

definition angle_prims :: "viewport \<Rightarrow> ptmap \<Rightarrow> geometry \<Rightarrow> angle \<Rightarrow> js_error + prim list" where
  "angle_prims v m d a =
     (let vp = ptmap_get m (vertex a) in
      if \<not> truthy vp then Inr []
      else
        (let cs = connPts m (segments d) (auxiliary d) (vertex a) in
         if length cs < 2 then Inr []
         else
           (let vx = geo_tx v (lx vp); vy = geo_ty v (ly vp) in
            case isRight (avalue a) of
              Inl e \<Rightarrow> Inl e
            | Inr right \<Rightarrow>
                Inr ((if mark a \<and> right then [bracket_glyph v vx vy (cs ! 0) (cs ! 1)]
                      else if mark a then [arc_glyph v vx vy (cs ! 0) (cs ! 1)]
                      else [])
                   @ (case avalue a of
                        StrValue s \<Rightarrow>
                          if s \<noteq> [] \<and> s \<noteq> ''direct_angle''
                          then [value_label v vx vy (cs ! 0) (cs ! 1) s] else []
                      | _ \<Rightarrow> [])))))"

fun angles_prims :: "viewport \<Rightarrow> ptmap \<Rightarrow> geometry \<Rightarrow> angle list \<Rightarrow> js_error + prim list" where
  "angles_prims v m d [] = Inr []"
| "angles_prims v m d (a # as) =
     (case angle_prims v m d a of
        Inl e \<Rightarrow> Inl e
      | Inr ps \<Rightarrow> (case angles_prims v m d as of Inl e \<Rightarrow> Inl e | Inr qs \<Rightarrow> Inr (ps @ qs)))"

definition point_prims :: "viewport \<Rightarrow> point \<Rightarrow> prim list" where
  "point_prims v p =
     (let x = geo_tx v (Fin (px p)); y = geo_ty v (Fin (py p));
          offY = (if jle (Fin (py p)) (jadd (minY v) (jmul (rangeY v) (Fin 0.3))) then 16 else - 12);
          offX0 = (if jle (Fin (px p)) (jadd (minX v) (jmul (rangeX v) (Fin 0.2))) then - 10 else 0);
          offX = (if jge (Fin (px p)) (jsub (maxX v) (jmul (rangeX v) (Fin 0.2))) then 10 else offX0)
      in [Circle x y (Fin 3), Text (jadd x (Fin offX)) (jadd y (Fin offY)) (pid p)])"

definition label_prims :: "viewport \<Rightarrow> ptmap \<Rightarrow> edgelabel \<Rightarrow> prim list" where
  "label_prims v m l =
     (let p1 = ptmap_get m (lfrom l); p2 = ptmap_get m (lto l) in
      if \<not> (truthy p1 \<and> truthy p2) then []
      else
        (let (mx, my) = midpoint (geo_tx v (lx p1)) (geo_ty v (ly p1))
                                 (geo_tx v (lx p2)) (geo_ty v (ly p2));
             dx = jsub (geo_tx v (lx p2)) (geo_tx v (lx p1));
             dy = jsub (geo_ty v (ly p2)) (geo_ty v (ly p1));
             len = num_or (math_sqrt (jadd (jmul dx dx) (jmul dy dy))) (Fin 1)
         in [Text (jadd mx (jmul (jdiv (jneg dy) len) (Fin 14)))
                  (jadd my (jmul (jdiv dx len) (Fin 14))) (ltext l)]))"

text \<open>
  \<open>renderGeometry\<close>: the drawing is attached to the container by the last statement, so
  a throw in the loop over the angles leaves the container as it was.
\<close>

definition renderGeometry :: "geometry \<Rightarrow> string \<Rightarrow> node list \<Rightarrow> outcome" where
  "renderGeometry d title container =
     (let m = ptmap_of (points d); v = geometry_viewport d;
          before = [Marker ''arrowhead'', Rect (Fin 0) (Fin 0) (Fin 360) (Fin 280)]
                 @ concat (map (circle_prims v m) (circles d))
                 @ concat (map (aux_prims v m) (auxiliary d))
                 @ concat (map (segment_prims v m) (segments d))
      in case angles_prims v m d (angles d) of
           Inl e \<Rightarrow> Threw e container
         | Inr marks \<Rightarrow>
             Returned (container @ [Svg 360 280
               (before @ marks
                @ concat (map (point_prims v) (points d))
                @ concat (map (label_prims v m) (labels d))
                @ (if title \<noteq> [] then [Text (Fin (360 / 2)) (Fin (280 - 8)) title] else []))]))"






section \<open>The optics renderer\<close>

record element =
  etype :: string
  position :: "real option"
  focalLength :: "real option"
  height :: "real option"

text \<open>\<open>rays\<close> is the ray-tracing toggle: rays are shown unless it is \<open>false\<close>.\<close>

record optics =
  elements :: "element list"
  axisRange :: "real list"
  rays :: "bool option"

text \<open>A range of the specification is used when it has exactly two entries, else a default.\<close>

definition range2 :: "real list \<Rightarrow> real \<times> real \<Rightarrow> real \<times> real" where
  "range2 r dflt = (case r of [a, b] \<Rightarrow> (a, b) | _ \<Rightarrow> dflt)"

text \<open>Canvas 400 by 240, padding 30; the axis lies at \<open>cy = 120\<close>.\<close>

definition optics_sx :: "optics \<Rightarrow> jsnum" where
  "optics_sx d =
     (let (a0, a1) = range2 (axisRange d) (- 30, 30) in
      jdiv (Fin (400 - 2 * 30)) (jsub (Fin a1) (Fin a0)))"

definition optics_tx :: "optics \<Rightarrow> jsnum \<Rightarrow> jsnum" where
  "optics_tx d x =
     (let (a0, a1) = range2 (axisRange d) (- 30, 30) in
      jadd (Fin 30) (jmul (jsub x (Fin a0)) (optics_sx d)))"

record optics_state =
  lensX :: "jsnum option"
  focalLen :: "jsnum option"
  objX :: "jsnum option"
  objH :: "jsnum option"
  drawn :: "prim list"

definition optics_init :: optics_state where
  "optics_init = \<lparr>lensX = None, focalLen = None, objX = None, objH = None, drawn = []\<rparr>"

definition lens_outline :: "jsnum \<Rightarrow> real \<Rightarrow> prim" where
  "lens_outline x bulge =
     Path [MoveTo x (Fin (120 - 70)), QuadTo (jadd x (Fin bulge)) (Fin 120) x (Fin (120 + 70))]"

definition convex_step :: "optics \<Rightarrow> element \<Rightarrow> optics_state \<Rightarrow> optics_state" where
  "convex_step d el st =
     (let x = optics_tx d (Fin (field_or (position el) 0));
          f = jmul (Fin (field_or (focalLength el) 10)) (optics_sx d)
      in st\<lparr>lensX := Some x, focalLen := Some f,
            drawn := drawn st @
              [lens_outline x 12, lens_outline x (- 12),
               Text (jsub x f) (Fin (120 + 16)) ''F'', Circle (jsub x f) (Fin 120) (Fin 3),
               Text (jadd x f) (Fin (120 + 16)) (''F'' @ [CHR 0x27]), Circle (jadd x f) (Fin 120) (Fin 3)]\<rparr>)"

definition concave_step :: "optics \<Rightarrow> element \<Rightarrow> optics_state \<Rightarrow> optics_state" where
  "concave_step d el st =
     (let x = optics_tx d (Fin (field_or (position el) 0));
          f = jmul (Fin (field_or (focalLength el) 10)) (optics_sx d)
      in st\<lparr>lensX := Some x, focalLen := Some f,
            drawn := drawn st @ [lens_outline x (- 10), lens_outline x 10]\<rparr>)"

text \<open>The object arrow; its label is the one-character text "object" (code point 7269).\<close>

definition object_step :: "optics \<Rightarrow> element \<Rightarrow> optics_state \<Rightarrow> optics_state" where
  "object_step d el st =
     (let x = optics_tx d (Fin (field_or (position el) 0));
          h = jmul (jmul (Fin (field_or (height el) 3)) (optics_sx d)) (Fin 0.5);
          top = jsub (Fin 120) h
      in st\<lparr>objX := Some x, objH := Some h,
            drawn := drawn st @
              [Line x (Fin 120) x top False,
               Polygon [(x, top), (jsub x (Fin 5), jadd top (Fin 10)), (jadd x (Fin 5), jadd top (Fin 10))],
               Text (jsub x (Fin 10)) (jsub top (Fin 8)) [CHR 0xE7, CHR 0x89, CHR 0xA9]]\<rparr>)"

definition element_step :: "optics \<Rightarrow> optics_state \<Rightarrow> element \<Rightarrow> optics_state" where
  "element_step d st el =
     (let st1 = (if etype el = ''convex_lens'' then convex_step d el st else st);
          st2 = (if etype el = ''concave_lens'' then concave_step d el st1 else st1)
      in if etype el = ''object'' then object_step d el st2 else st2)"

text \<open>
  The thin-lens construction, on canvas coordinates: \<open>u\<close> is the distance from the object
  to the lens, \<open>v = f u / (u - f)\<close> the image distance and \<open>-(v / u) objH\<close> the image
  height. The image label is the one-character text "image" (code point 50CF).
\<close>

definition image_distance :: "jsnum \<Rightarrow> jsnum \<Rightarrow> jsnum" where
  "image_distance f u = jdiv (jmul f u) (jsub u f)"

definition image_height :: "jsnum \<Rightarrow> jsnum \<Rightarrow> jsnum \<Rightarrow> jsnum" where
  "image_height v u h = jmul (jneg (jdiv v u)) h"

definition rays_guard :: "jsnum \<Rightarrow> jsnum \<Rightarrow> bool" where
  "rays_guard u f = (jgt (math_abs u) (Fin 1) \<and> jgt (math_abs (jsub u f)) (Fin 1))"

definition construction :: "jsnum \<Rightarrow> jsnum \<Rightarrow> jsnum \<Rightarrow> jsnum \<Rightarrow> prim list" where
  "construction lx0 f ox h =
     (let u = jsub lx0 ox in
      if rays_guard u f
      then
        (let v = image_distance f u;
             imgH = image_height v u h;
             imgX = jadd lx0 v;
             objTop = jsub (Fin 120) h;
             ray2slope = jdiv (jsub objTop (Fin 120)) (jsub ox lx0);
             ray2endX = (if jgt v (Fin 0) then imgX else jadd lx0 (jsub lx0 ox));
             ray2endY = jadd (Fin 120) (jmul ray2slope (jsub ray2endX lx0))
         in (if jgt imgX (Fin 30) \<and> jlt imgX (Fin (400 - 30))
             then [Line imgX (Fin 120) imgX (jsub (Fin 120) imgH) (jlt v (Fin 0)),
                   Text (jadd imgX (Fin 10)) (jsub (Fin 120) imgH) [CHR 0xE5, CHR 0x83, CHR 0x8F]]
             else [])
          @ [Line ox objTop lx0 objTop False]
          @ (if jgt v (Fin 0) then [Line lx0 objTop imgX (jsub (Fin 120) imgH) False] else [])
          @ [Line ox objTop ray2endX ray2endY False])
      else [])"

definition ray_prims :: "optics \<Rightarrow> optics_state \<Rightarrow> prim list" where
  "ray_prims d st =
     (if rays d = Some False then []
      else case (lensX st, focalLen st, objX st, objH st) of
             (Some lx0, Some f, Some ox, Some h) \<Rightarrow> construction lx0 f ox h
           | _ \<Rightarrow> [])"

text \<open>
  The image distance \<open>v\<close> and the image height \<open>imgH\<close> the construction computes from
  the state the loop over the elements has left.
\<close>

definition image_of_state :: "optics_state \<Rightarrow> (jsnum \<times> jsnum) option" where
  "image_of_state st =
     (case (lensX st, focalLen st, objX st, objH st) of
        (Some lx0, Some f, Some ox, Some h) \<Rightarrow>
          (let u = jsub lx0 ox; v = image_distance f u in Some (v, image_height v u h))
      | _ \<Rightarrow> None)"

definition renderOptics :: "optics \<Rightarrow> string \<Rightarrow> node list \<Rightarrow> outcome" where
  "renderOptics d title container =
     (let st = foldl (element_step d) optics_init (elements d) in
      Returned (container @ [Svg 400 240
        ([Marker ''arrowray'', Rect (Fin 0) (Fin 0) (Fin 400) (Fin 240),
          Line (Fin 30) (Fin 120) (Fin (400 - 30)) (Fin 120) True]
         @ drawn st @ ray_prims d st
         @ (if title \<noteq> [] then [Text (Fin (400 / 2)) (Fin (240 - 8)) title] else []))]))"

section \<open>The molecule renderer\<close>

record molecule =
  smiles :: string
  name :: string

text \<open>
  The molecule-drawing collaborator, when the runtime has it: for a notation it draws on
  the canvas, reports a parse error through its callback, or throws.
\<close>

datatype smiles_result = Drawn | ParseError | DrawerThrows

text \<open>The message for an empty notation ("SMILES" followed by nine characters beyond ASCII).\<close>

definition msg_empty_smiles :: string where
  "msg_empty_smiles = ''SMILES '' @
     [CHR 0xE4, CHR 0xB8, CHR 0xBA, CHR 0xE7, CHR 0xA9, CHR 0xBA, CHR 0xEF, CHR 0xBC, CHR 0x8C,
      CHR 0xE6, CHR 0x97, CHR 0xA0, CHR 0xE6, CHR 0xB3, CHR 0x95, CHR 0xE6, CHR 0xB8, CHR 0xB2,
      CHR 0xE6, CHR 0x9F, CHR 0x93, CHR 0xE5, CHR 0x88, CHR 0x86, CHR 0xE5, CHR 0xAD, CHR 0x90,
      CHR 0xE7, CHR 0xBB, CHR 0x93, CHR 0xE6, CHR 0x9E, CHR 0x84]"

text \<open>The suffix of the fallback text after a parse error (a space and a bracketed note).\<close>

definition parse_failed_suffix :: string where
  "parse_failed_suffix = '' ('' @
     [CHR 0xE8, CHR 0xA7, CHR 0xA3, CHR 0xE6, CHR 0x9E, CHR 0x90, CHR 0xE5, CHR 0xA4, CHR 0xB1,
      CHR 0xE8, CHR 0xB4, CHR 0xA5] @ '')''"

definition renderMolecule ::
  "(string \<Rightarrow> smiles_result) option \<Rightarrow> molecule \<Rightarrow> node list \<Rightarrow> outcome" where
  "renderMolecule drawer d container =
     (if smiles d = [] then Returned (renderError msg_empty_smiles container)
      else
        (let label = (if name d \<noteq> [] then [TextDiv (name d)] else []) in
         Returned (container @
           [Wrapper
             (case drawer of
                Some draw \<Rightarrow>
                  (case draw (smiles d) of
                     Drawn \<Rightarrow> Canvas True (Some (smiles d)) # label
                   | ParseError \<Rightarrow>
                       TextDiv (''SMILES: '' @ smiles d @ parse_failed_suffix)
                         # Canvas False None # label
                   | DrawerThrows \<Rightarrow> Canvas True None # label)
              | None \<Rightarrow> TextDiv (''SMILES: '' @ smiles d) # Canvas False None # label)])))"

section \<open>The function-graph renderer: coordinate mapping and curve sampling\<close>

record function_graph =
  xRange :: "real list"
  yRange :: "real list"

text \<open>Canvas 380 by 300, padding 40; a separate factor for each axis.\<close>

definition fg_sx :: "function_graph \<Rightarrow> jsnum" where
  "fg_sx d = (let (x0, x1) = range2 (xRange d) (- 5, 5) in
              jdiv (Fin (380 - 2 * 40)) (jsub (Fin x1) (Fin x0)))"

definition fg_sy :: "function_graph \<Rightarrow> jsnum" where
  "fg_sy d = (let (y0, y1) = range2 (yRange d) (- 5, 5) in
              jdiv (Fin (300 - 2 * 40)) (jsub (Fin y1) (Fin y0)))"

definition fg_tx :: "function_graph \<Rightarrow> jsnum \<Rightarrow> jsnum" where
  "fg_tx d x = (let (x0, x1) = range2 (xRange d) (- 5, 5) in
                jadd (Fin 40) (jmul (jsub x (Fin x0)) (fg_sx d)))"

definition fg_ty :: "function_graph \<Rightarrow> jsnum \<Rightarrow> jsnum" where
  "fg_ty d y = (let (y0, y1) = range2 (yRange d) (- 5, 5) in
                jsub (Fin (300 - 40)) (jmul (jsub y (Fin y0)) (fg_sy d)))"

text \<open>
  The sampling loop of one curve,
  \<open>for (let x = xRange[0]; x <= xRange[1]; x += step)\<close>, with the state
  \<open>(pathD, drawing)\<close>. The function \<open>f\<close> stands for \<open>x \<mapsto> evalExpr(fn.expr, x)\<close>: the
  value the host computes from the compiled text, \<open>NaN\<close> when it faults. The loop need
  not end (the step is \<open>0\<close> for a range of width \<open>0\<close>), so it returns an option.
\<close>

definition sample_skipped :: "function_graph \<Rightarrow> jsnum \<Rightarrow> bool" where
  "sample_skipped d y =
     (let (y0, y1) = range2 (yRange d) (- 5, 5) in
      is_nan y \<or> \<not> is_finite y \<or> jlt y (Fin (y0 - 10)) \<or> jgt y (Fin (y1 + 10)))"

partial_function (option) sample_loop ::
  "(real \<Rightarrow> jsnum) \<Rightarrow> function_graph \<Rightarrow> real \<Rightarrow> real \<Rightarrow> pathcmd list \<times> bool
     \<Rightarrow> (pathcmd list \<times> bool) option" where
  "sample_loop f d step x st =
     (if x \<le> snd (range2 (xRange d) (- 5, 5))
      then
        (let y = f x in
         if sample_skipped d y then sample_loop f d step (x + step) (fst st, False)
         else sample_loop f d step (x + step)
                (fst st @ [(if snd st then LineTo else MoveTo) (fg_tx d (Fin x)) (fg_ty d y)], True))
      else Some st)"

definition curve_path :: "(real \<Rightarrow> jsnum) \<Rightarrow> function_graph \<Rightarrow> pathcmd list option" where
  "curve_path f d =
     (let (x0, x1) = range2 (xRange d) (- 5, 5) in
      map_option fst (sample_loop f d ((x1 - x0) / 300) x0 ([], False)))"




section \<open>The dispatcher\<close>

text \<open>
  A value of the parsed specification where the source tests truthiness or compares
  with \<open>===\<close>: the field \<open>type\<close>.
\<close>

datatype jsval = JUndefined | JNull | JBool bool | JNum real | JStr string | JObject

fun val_truthy :: "jsval \<Rightarrow> bool" where
  "val_truthy JUndefined = False"
| "val_truthy JNull = False"
| "val_truthy (JBool b) = b"
| "val_truthy (JNum r) = (r \<noteq> 0)"
| "val_truthy (JStr s) = (s \<noteq> [])"
| "val_truthy JObject = True"

text \<open>
  The data of a specification, by shape. The three renderers modelled above read their
  own fields through \<open>safeObj\<close> and \<open>safeArr\<close>, so data of another shape reads as
  empty lists and absent fields.
\<close>

datatype domain_data =
    GeometryData geometry
  | OpticsData optics
  | MoleculeData molecule
  | OtherData

definition as_geometry :: "domain_data \<Rightarrow> geometry" where
  "as_geometry dd =
     (case dd of
        GeometryData g \<Rightarrow> g
      | _ \<Rightarrow> \<lparr>points = [], segments = [], angles = [], labels = [], circles = [], auxiliary = []\<rparr>)"

definition as_optics :: "domain_data \<Rightarrow> optics" where
  "as_optics dd =
     (case dd of OpticsData d \<Rightarrow> d | _ \<Rightarrow> \<lparr>elements = [], axisRange = [], rays = None\<rparr>)"

definition as_molecule :: "domain_data \<Rightarrow> molecule" where
  "as_molecule dd = (case dd of MoleculeData d \<Rightarrow> d | _ \<Rightarrow> \<lparr>smiles = [], name = []\<rparr>)"

text \<open>
  A specification object: \<open>type\<close>, \<open>title\<close> (empty when absent), \<open>data.description\<close>
  (empty when absent) and the data. A parsed value that is no object (a number, a
  string) has no field \<open>type\<close> and reads as a specification whose type is \<open>JUndefined\<close>.
\<close>

record spec =
  stype :: jsval
  title :: string
  description :: string
  payload :: domain_data

datatype handler =
    HGeometry | HFunctionGraph | HCoordinate | HForce | HCircuit | HOptics | HMolecule
  | HReaction | HApparatus | HCell | HProcessFlow | HGeographic | HGenericSVG

text \<open>The \<open>switch\<close> over \<open>spec.type\<close>, compared with \<open>===\<close>.\<close>

definition route :: "jsval \<Rightarrow> handler" where
  "route t =
     (case t of
        JStr s \<Rightarrow>
          if s = ''geometry'' then HGeometry
          else if s = ''function_graph'' then HFunctionGraph
          else if s = ''coordinate'' then HCoordinate
          else if s = ''force'' then HForce
          else if s = ''circuit'' then HCircuit
          else if s = ''optics'' then HOptics
          else if s = ''molecule'' then HMolecule
          else if s = ''reaction'' then HReaction
          else if s = ''apparatus'' then HApparatus
          else if s = ''cell'' then HCell
          else if s = ''process_flow'' then HProcessFlow
          else if s = ''geographic'' then HGeographic
          else if s = ''generic_svg'' then HGenericSVG
          else HGenericSVG
      | _ \<Rightarrow> HGenericSVG)"

text \<open>
  The runtime: the molecule-drawing collaborator, if it is loaded, and the behaviour of
  the renderers that are not modelled here, which may return or throw and act on their
  own container only.
\<close>

record host =
  smilesDrawer :: "(string \<Rightarrow> smiles_result) option"
  others :: "handler \<Rightarrow> spec \<Rightarrow> node list \<Rightarrow> outcome"

definition run_handler :: "host \<Rightarrow> handler \<Rightarrow> spec \<Rightarrow> node list \<Rightarrow> outcome" where
  "run_handler env h s container =
     (case h of
        HGeometry \<Rightarrow> renderGeometry (as_geometry (payload s)) (title s) container
      | HOptics \<Rightarrow> renderOptics (as_optics (payload s)) (title s) container
      | HMolecule \<Rightarrow> renderMolecule (smilesDrawer env) (as_molecule (payload s)) container
      | _ \<Rightarrow> others env h s container)"

text \<open>The two fixed messages of the dispatcher (five and six characters beyond ASCII).\<close>

definition msg_no_spec :: string where
  "msg_no_spec =
     [CHR 0xE6, CHR 0x97, CHR 0xA0, CHR 0xE5, CHR 0x9B, CHR 0xBE, CHR 0xE5, CHR 0xBD, CHR 0xA2,
      CHR 0xE8, CHR 0xA7, CHR 0x84, CHR 0xE6, CHR 0xA0, CHR 0xBC]"

definition msg_render_failed :: string where
  "msg_render_failed =
     [CHR 0xE5, CHR 0x9B, CHR 0xBE, CHR 0xE5, CHR 0xBD, CHR 0xA2, CHR 0xE6, CHR 0xB8, CHR 0xB2,
      CHR 0xE6, CHR 0x9F, CHR 0x93, CHR 0xE5, CHR 0xA4, CHR 0xB1, CHR 0xE8, CHR 0xB4, CHR 0xA5]"

text \<open>\<open>spec.data?.description || spec.title || msg_render_failed\<close>.\<close>

definition failure_message :: "spec \<Rightarrow> string" where
  "failure_message s =
     (if description s \<noteq> [] then description s
      else if title s \<noteq> [] then title s
      else msg_render_failed)"

text \<open>
  \<open>render(spec)\<close>; \<open>None\<close> is a specification that is \<open>null\<close> (or another falsy value).
  The renderer runs inside the \<open>try\<close>; the handler of the \<open>catch\<close> adds the error box
  to the container as the throw left it.
\<close>

definition render :: "host \<Rightarrow> spec option \<Rightarrow> node list \<Rightarrow> outcome" where
  "render env so container =
     (case so of
        None \<Rightarrow> Returned (renderError msg_no_spec container)
      | Some s \<Rightarrow>
          if \<not> val_truthy (stype s) then Returned (renderError msg_no_spec container)
          else
            (case run_handler env (route (stype s)) s container of
               Returned c \<Rightarrow> Returned c
             | Threw e c \<Rightarrow> Returned (renderError (failure_message s) c)))"

section \<open>The batch driver\<close>

text \<open>
  A diagram container: what \<open>JSON.parse\<close> makes of its \<open>data-diagram\<close> attribute (a
  syntax error, or a value), the flag \<open>data-rendered = 'true'\<close>, and its children.
\<close>

datatype parsed = Malformed | Parsed "spec option"

record container =
  diagram :: parsed
  rendered :: bool
  children :: "node list"

text \<open>
  One pass of the loop of \<open>renderAllDiagrams\<close>. The flag is set behind the awaited call
  of \<open>render\<close>, inside the \<open>try\<close>; the \<open>catch\<close> replaces the content of the container by
  the failure box and sets no flag.
\<close>

definition process_container :: "host \<Rightarrow> container \<Rightarrow> container" where
  "process_container env el =
     (if rendered el then el
      else
        (case diagram el of
           Malformed \<Rightarrow> el\<lparr>children := [FailureDiv]\<rparr>
         | Parsed so \<Rightarrow>
             (case render env so (children el) of
                Returned c \<Rightarrow> el\<lparr>children := c, rendered := True\<rparr>
              | Threw e c \<Rightarrow> el\<lparr>children := [FailureDiv]\<rparr>)))"

text \<open>
  The containers are processed one after the other, in document order; every statement
  of the loop that can throw stands inside its \<open>try\<close>.
\<close>

definition renderAllDiagrams :: "host \<Rightarrow> container list \<Rightarrow> container list" where
  "renderAllDiagrams env doc = map (process_container env) doc"

section \<open>Example inputs\<close>

text \<open>
  A runtime without the molecule-drawing collaborator, in which the renderers that are
  not modelled return without drawing.
\<close>

definition quiet_host :: host where
  "quiet_host = \<lparr>smilesDrawer = None, others = (\<lambda>h s c. Returned c)\<rparr>"

text \<open>
  A triangle with its angle at \<open>A\<close> marked; the value of the angle is a parameter.
  As JSON: points \<open>A(0,0)\<close>, \<open>B(4,0)\<close>, \<open>C(0,3)\<close>, segments \<open>[A,B]\<close> and \<open>[A,C]\<close>,
  angles \<open>[{vertex: A, value: ..., mark: true}]\<close>.
\<close>

definition triangle :: "angle_value \<Rightarrow> geometry" where
  "triangle val =
     \<lparr>points = [\<lparr>pid = ''A'', px = 0, py = 0\<rparr>, \<lparr>pid = ''B'', px = 4, py = 0\<rparr>,
                 \<lparr>pid = ''C'', px = 0, py = 3\<rparr>],
      segments = [(''A'', ''B''), (''A'', ''C'')],
      angles = [\<lparr>vertex = ''A'', avalue = val, mark = True\<rparr>],
      labels = [], circles = [], auxiliary = []\<rparr>"

definition triangle_spec :: "angle_value \<Rightarrow> spec" where
  "triangle_spec val =
     \<lparr>stype = JStr ''geometry'', title = [], description = [], payload = GeometryData (triangle val)\<rparr>"

definition ethanol :: molecule where
  "ethanol = \<lparr>smiles = ''CCO'', name = ''ethanol''\<rparr>"

definition ethanol_spec :: spec where
  "ethanol_spec =
     \<lparr>stype = JStr ''molecule'', title = [], description = [], payload = MoleculeData ethanol\<rparr>"

text \<open>A document of two pending containers: the triangle with the numeric value 90, and ethanol.\<close>

definition two_diagrams :: "container list" where
  "two_diagrams =
     [\<lparr>diagram = Parsed (Some (triangle_spec (NumValue 90))), rendered = False, children = []\<rparr>,
      \<lparr>diagram = Parsed (Some ethanol_spec), rendered = False, children = []\<rparr>]"

text \<open>A pending container whose attribute is no JSON text (for instance a lone brace).\<close>

definition broken_container :: container where
  "broken_container = \<lparr>diagram = Malformed, rendered = False, children = []\<rparr>"

text \<open>
  One declared point and a segment from the undeclared id \<open>constructor\<close>. As JSON:
  points \<open>[{id: A, x: 0, y: 0}]\<close>, segments \<open>[[constructor, A]]\<close>.
\<close>

definition dangling :: geometry where
  "dangling =
     \<lparr>points = [\<lparr>pid = ''A'', px = 0, py = 0\<rparr>],
      segments = [(''constructor'', ''A'')],
      angles = [], labels = [], circles = [], auxiliary = []\<rparr>"

text \<open>
  The thin-lens example: a convex lens of focal length 10 at position 0, an object of
  height 4 at position \<open>-20\<close>, no axis range given.
\<close>

definition thin_lens :: optics where
  "thin_lens =
     \<lparr>elements =
        [\<lparr>etype = ''convex_lens'', position = Some 0, focalLength = Some 10, height = None\<rparr>,
         \<lparr>etype = ''object'', position = Some (- 20), focalLength = None, height = Some 4\<rparr>],
      axisRange = [], rays = None\<rparr>"



section \<open>Properties\<close>

text \<open>
  C1 (the text of an expression reaches the host's code constructor unchecked).
  The claim is that for every expression text only the fixed vocabulary and the bound
  variable can be referenced. The rewriting only renames the vocabulary: at the
  expression \<open>fetch(document.cookie)\<close> the body compiled by the host is
  \<open>return fetch(document.cookie)\<close>, whose identifiers \<open>fetch\<close>, \<open>document\<close> and
  \<open>cookie\<close> are outside the vocabulary, while a well-formed expression such as
  \<open>sin(x)^2\<close> is rewritten to vocabulary names only.
\<close>

theorem evalExpr_passes_foreign_names:
  "function_body ''fetch(document.cookie)'' = ''return fetch(document.cookie)''
   \<and> identifiers (function_body ''fetch(document.cookie)'')
       = [''return'', ''fetch'', ''document'', ''cookie'']
   \<and> \<not> only_vocabulary (function_body ''fetch(document.cookie)'')
   \<and> function_body ''sin(x)^2'' = ''return Math.sin(x)**2''
   \<and> only_vocabulary (function_body ''sin(x)^2'')"
  by (simp add: function_body_def safeExpr_def replace_caret_def is_word_char_def
      char_matches_def lower_char_def identifiers_def is_digit_def only_vocabulary_def
      vocabulary_def)

subsection \<open>Dispatcher and batch driver\<close>

lemma render_returns: "\<exists>r. render env so c = Returned r"
  by (simp add: render_def split: option.splits outcome.splits)

lemma render_catches:
  "val_truthy (stype s) \<Longrightarrow> run_handler env (route (stype s)) s c = Threw e c'
   \<Longrightarrow> render env (Some s) c = Returned (c' @ [ErrorDiv (warning_prefix @ failure_message s)])"
  by (simp add: render_def renderError_def)

lemma triangle_numeric_throws:
  "renderGeometry (triangle (NumValue 90)) t c = Threw TypeError c"
  by (simp add: renderGeometry_def triangle_def angle_prims_def ptmap_of_def ptmap_set_def
      ptmap_empty_def ptmap_get_def connPts_def isRight_def Let_def)

lemma process_marks:
  "rendered (process_container env el) = (rendered el \<or> diagram el \<noteq> Malformed)"
proof (cases "diagram el")
  case Malformed
  then show ?thesis by (simp add: process_container_def)
next
  case (Parsed so)
  obtain r where "render env so (children el) = Returned r"
    using render_returns by blast
  with Parsed show ?thesis by (simp add: process_container_def)
qed

text \<open>
  C2 (faults are caught by the dispatcher and do not reach the siblings). When the
  renderer a specification is routed to throws, \<open>render\<close> returns with the error box
  added to the container; \<open>render\<close> returns for every input; the driver yields one
  processed container for each container of the document, each the result of processing
  that container alone; a pending container whose renderer throws ends with the error
  box and the rendered flag; and every container whose attribute parses is rendered after
  the pass, whatever happened to the others.
\<close>

theorem dispatcher_isolates_faults:
  "(val_truthy (stype s) \<and> run_handler env (route (stype s)) s c = Threw e c'
      \<longrightarrow> render env (Some s) c = Returned (c' @ [ErrorDiv (warning_prefix @ failure_message s)]))
   \<and> (\<exists>r. render env so c = Returned r)
   \<and> length (renderAllDiagrams env doc) = length doc
   \<and> (\<forall>i<length doc. renderAllDiagrams env doc ! i = process_container env (doc ! i))
   \<and> (\<forall>i<length doc.
        \<not> rendered (doc ! i) \<and> diagram (doc ! i) = Parsed (Some s) \<and> val_truthy (stype s)
        \<and> run_handler env (route (stype s)) s (children (doc ! i)) = Threw e c'
        \<longrightarrow> renderAllDiagrams env doc ! i
            = (doc ! i)\<lparr>children := c' @ [ErrorDiv (warning_prefix @ failure_message s)],
                        rendered := True\<rparr>)
   \<and> (\<forall>i<length doc. diagram (doc ! i) \<noteq> Malformed
        \<longrightarrow> rendered (renderAllDiagrams env doc ! i))"
proof -
  have a: "val_truthy (stype s) \<and> run_handler env (route (stype s)) s c = Threw e c'
      \<longrightarrow> render env (Some s) c = Returned (c' @ [ErrorDiv (warning_prefix @ failure_message s)])"
    by (simp add: render_catches)
  have b: "\<exists>r. render env so c = Returned r"
    by (rule render_returns)
  have c: "length (renderAllDiagrams env doc) = length doc"
    by (simp add: renderAllDiagrams_def)
  have d: "\<forall>i<length doc. renderAllDiagrams env doc ! i = process_container env (doc ! i)"
    by (simp add: renderAllDiagrams_def)
  have e: "\<forall>i<length doc.
        \<not> rendered (doc ! i) \<and> diagram (doc ! i) = Parsed (Some s) \<and> val_truthy (stype s)
        \<and> run_handler env (route (stype s)) s (children (doc ! i)) = Threw e c'
        \<longrightarrow> renderAllDiagrams env doc ! i
            = (doc ! i)\<lparr>children := c' @ [ErrorDiv (warning_prefix @ failure_message s)],
                        rendered := True\<rparr>"
    by (simp add: renderAllDiagrams_def process_container_def render_catches)
  have f: "\<forall>i<length doc. diagram (doc ! i) \<noteq> Malformed
        \<longrightarrow> rendered (renderAllDiagrams env doc ! i)"
    by (simp add: renderAllDiagrams_def process_marks)
  from a b c d e f show ?thesis by blast
qed

theorem dispatcher_isolates_faults_witness:
  "renderAllDiagrams quiet_host two_diagrams ! 0
     = \<lparr>diagram = Parsed (Some (triangle_spec (NumValue 90))), rendered = True,
        children = [ErrorDiv (warning_prefix @ msg_render_failed)]\<rparr>
   \<and> renderAllDiagrams quiet_host two_diagrams ! 1
     = \<lparr>diagram = Parsed (Some ethanol_spec), rendered = True,
        children = [Wrapper [TextDiv ''SMILES: CCO'', Canvas False None, TextDiv ''ethanol'']]\<rparr>"
proof -
  let ?s = "triangle_spec (NumValue 90)"
  have throws: "run_handler quiet_host (route (stype ?s)) ?s (children (two_diagrams ! 0))
      = Threw TypeError []"
    by (simp add: run_handler_def route_def triangle_spec_def as_geometry_def two_diagrams_def
        triangle_numeric_throws)
  have pre: "0 < length two_diagrams \<and> \<not> rendered (two_diagrams ! 0)
      \<and> diagram (two_diagrams ! 0) = Parsed (Some ?s) \<and> val_truthy (stype ?s)"
    by (simp add: two_diagrams_def triangle_spec_def)
  have first: "renderAllDiagrams quiet_host two_diagrams ! 0
      = (two_diagrams ! 0)\<lparr>children := [] @ [ErrorDiv (warning_prefix @ failure_message ?s)],
                             rendered := True\<rparr>"
    using dispatcher_isolates_faults [of ?s quiet_host _ TypeError "[]" _ two_diagrams] pre throws
    by blast
  have msg: "failure_message ?s = msg_render_failed"
    by (simp add: failure_message_def triangle_spec_def)
  have second: "renderAllDiagrams quiet_host two_diagrams ! 1
     = \<lparr>diagram = Parsed (Some ethanol_spec), rendered = True,
        children = [Wrapper [TextDiv ''SMILES: CCO'', Canvas False None, TextDiv ''ethanol'']]\<rparr>"
    by (simp add: renderAllDiagrams_def two_diagrams_def process_container_def render_def
        ethanol_spec_def run_handler_def route_def as_molecule_def renderMolecule_def ethanol_def
        quiet_host_def)
  from first msg second show ?thesis
    by (simp add: two_diagrams_def)
qed

lemma process_twice: "process_container env (process_container env el) = process_container env el"
proof (cases "rendered el")
  case True
  then show ?thesis by (simp add: process_container_def)
next
  case False
  show ?thesis
  proof (cases "diagram el")
    case Malformed
    with False show ?thesis by (simp add: process_container_def)
  next
    case (Parsed so)
    obtain r where "render env so (children el) = Returned r"
      using render_returns by blast
    with False Parsed show ?thesis by (simp add: process_container_def)
  qed
qed

text \<open>
  C3, as the code has it. A container is marked rendered exactly when its attribute
  parses: then \<open>render\<close> returns, after success or after a fault the dispatcher handled.
  A container whose attribute does not parse gets the failure box and stays unmarked.
  A marked container is skipped, and running the driver on its own result changes
  nothing.
\<close>

theorem driver_marks_parsed_and_is_idempotent:
  "rendered (process_container env el) = (rendered el \<or> diagram el \<noteq> Malformed)
   \<and> (rendered el \<longrightarrow> process_container env el = el)
   \<and> (\<not> rendered el \<and> diagram el = Malformed
        \<longrightarrow> process_container env el = el\<lparr>children := [FailureDiv]\<rparr>)
   \<and> renderAllDiagrams env (renderAllDiagrams env doc) = renderAllDiagrams env doc"
proof -
  have "renderAllDiagrams env (renderAllDiagrams env doc) = renderAllDiagrams env doc"
    by (simp add: renderAllDiagrams_def process_twice)
  moreover have "rendered el \<longrightarrow> process_container env el = el"
    by (simp add: process_container_def)
  moreover have "\<not> rendered el \<and> diagram el = Malformed
        \<longrightarrow> process_container env el = el\<lparr>children := [FailureDiv]\<rparr>"
    by (simp add: process_container_def)
  ultimately show ?thesis using process_marks by blast
qed

theorem driver_marks_parsed_and_is_idempotent_witness:
  "rendered (process_container quiet_host (two_diagrams ! 1))
   \<and> process_container quiet_host (process_container quiet_host (two_diagrams ! 1))
       = process_container quiet_host (two_diagrams ! 1)
   \<and> process_container quiet_host broken_container = broken_container\<lparr>children := [FailureDiv]\<rparr>
   \<and> renderAllDiagrams quiet_host (renderAllDiagrams quiet_host two_diagrams)
       = renderAllDiagrams quiet_host two_diagrams"
proof -
  note t = driver_marks_parsed_and_is_idempotent
  have m: "rendered (process_container quiet_host (two_diagrams ! 1))"
    using t [of quiet_host "two_diagrams ! 1" "[]"] by (simp add: two_diagrams_def)
  have s: "process_container quiet_host (process_container quiet_host (two_diagrams ! 1))
       = process_container quiet_host (two_diagrams ! 1)"
    using t [of quiet_host "process_container quiet_host (two_diagrams ! 1)" "[]"] m by blast
  have b: "process_container quiet_host broken_container = broken_container\<lparr>children := [FailureDiv]\<rparr>"
    using t [of quiet_host broken_container "[]"] by (simp add: broken_container_def)
  have i: "renderAllDiagrams quiet_host (renderAllDiagrams quiet_host two_diagrams)
       = renderAllDiagrams quiet_host two_diagrams"
    using t [of quiet_host broken_container two_diagrams] by blast
  from m s b i show ?thesis by blast
qed

text \<open>
  The claim of C3 as stated fails at a container whose attribute does not parse: the
  failure is handled (the failure box is shown), yet the container is not marked;
  the next pass does not skip it.
\<close>

theorem unparsed_container_not_marked:
  "children (process_container quiet_host broken_container) = [FailureDiv]
   \<and> \<not> rendered (process_container quiet_host broken_container)"
  by (simp add: process_container_def broken_container_def)

text \<open>
  C10 (a missing specification or type). For a specification that is \<open>null\<close>, or whose
  type is absent or empty (falsy), \<open>render\<close> returns with the error box added, whatever
  the renderers of the runtime would do: none of them is called. The generic renderer is
  the one called for a truthy type that is none of the twelve domain tags.
\<close>

theorem render_without_type:
  "(so = None \<or> (\<exists>s. so = Some s \<and> \<not> val_truthy (stype s))
      \<longrightarrow> render env so c = Returned (c @ [ErrorDiv (warning_prefix @ msg_no_spec)]))
   \<and> (val_truthy t \<and> t \<notin> JStr ` {''geometry'', ''function_graph'', ''coordinate'', ''force'',
         ''circuit'', ''optics'', ''molecule'', ''reaction'', ''apparatus'', ''cell'',
         ''process_flow'', ''geographic''}
      \<longrightarrow> route t = HGenericSVG)
   \<and> (val_truthy (stype s) \<and> route (stype s) = HGenericSVG
      \<longrightarrow> render env (Some s) c =
          (case others env HGenericSVG s c of
             Returned c' \<Rightarrow> Returned c'
           | Threw e c' \<Rightarrow> Returned (c' @ [ErrorDiv (warning_prefix @ failure_message s)])))"
proof -
  have a: "so = None \<or> (\<exists>s. so = Some s \<and> \<not> val_truthy (stype s))
      \<longrightarrow> render env so c = Returned (c @ [ErrorDiv (warning_prefix @ msg_no_spec)])"
    by (auto simp: render_def renderError_def)
  have b: "val_truthy t \<and> t \<notin> JStr ` {''geometry'', ''function_graph'', ''coordinate'', ''force'',
         ''circuit'', ''optics'', ''molecule'', ''reaction'', ''apparatus'', ''cell'',
         ''process_flow'', ''geographic''}
      \<longrightarrow> route t = HGenericSVG"
    by (cases t) (simp_all add: route_def)
  have c: "val_truthy (stype s) \<and> route (stype s) = HGenericSVG
      \<longrightarrow> render env (Some s) c =
          (case others env HGenericSVG s c of
             Returned c' \<Rightarrow> Returned c'
           | Threw e c' \<Rightarrow> Returned (c' @ [ErrorDiv (warning_prefix @ failure_message s)]))"
    by (simp add: render_def renderError_def run_handler_def split: outcome.splits)
  from a b c show ?thesis by blast
qed

theorem render_without_type_witness:
  "render quiet_host None [] = Returned [ErrorDiv (warning_prefix @ msg_no_spec)]
   \<and> render quiet_host (Some (ethanol_spec\<lparr>stype := JStr []\<rparr>)) []
       = Returned [ErrorDiv (warning_prefix @ msg_no_spec)]
   \<and> route (JStr ''hexagon'') = HGenericSVG
   \<and> render quiet_host (Some (ethanol_spec\<lparr>stype := JStr ''hexagon''\<rparr>)) [] = Returned []"
proof -
  note t = render_without_type
  have a: "render quiet_host None [] = Returned [ErrorDiv (warning_prefix @ msg_no_spec)]"
    using t [of None quiet_host "[]" JNull ethanol_spec] by simp
  have b: "render quiet_host (Some (ethanol_spec\<lparr>stype := JStr []\<rparr>)) []
       = Returned [ErrorDiv (warning_prefix @ msg_no_spec)]"
    using t [of "Some (ethanol_spec\<lparr>stype := JStr []\<rparr>)" quiet_host "[]" JNull ethanol_spec] by simp
  have c: "route (JStr ''hexagon'') = HGenericSVG"
    using t [of None quiet_host "[]" "JStr ''hexagon''" ethanol_spec] by simp
  have d: "render quiet_host (Some (ethanol_spec\<lparr>stype := JStr ''hexagon''\<rparr>)) [] = Returned []"
    using t [of None quiet_host "[]" JNull "ethanol_spec\<lparr>stype := JStr ''hexagon''\<rparr>"] c
    by (simp add: quiet_host_def)
  from a b c d show ?thesis by blast
qed

subsection \<open>The molecule renderer\<close>

text \<open>
  C9 (empty notation, absent collaborator). An empty notation gives the error box,
  with or without the collaborator. For a notation that is not empty and a runtime
  without the collaborator, the container receives the wrapper, whose first child is the
  text \<open>SMILES: \<close> followed by the notation, then the hidden canvas and the name if there
  is one; through the dispatcher the same holds for a specification of type \<open>molecule\<close>.
\<close>

theorem molecule_always_visible:
  "(smiles d = [] \<longrightarrow>
      renderMolecule drawer d c = Returned (c @ [ErrorDiv (warning_prefix @ msg_empty_smiles)]))
   \<and> (smiles d \<noteq> [] \<longrightarrow>
      renderMolecule None d c
        = Returned (c @ [Wrapper (TextDiv (''SMILES: '' @ smiles d) # Canvas False None
                          # (if name d \<noteq> [] then [TextDiv (name d)] else []))]))
   \<and> (smiles d \<noteq> [] \<and> smilesDrawer env = None \<and> stype s = JStr ''molecule''
        \<and> payload s = MoleculeData d \<longrightarrow>
      render env (Some s) c
        = Returned (c @ [Wrapper (TextDiv (''SMILES: '' @ smiles d) # Canvas False None
                          # (if name d \<noteq> [] then [TextDiv (name d)] else []))]))"
  by (simp add: renderMolecule_def renderError_def render_def run_handler_def route_def
      as_molecule_def)

theorem molecule_always_visible_witness:
  "renderMolecule None (ethanol\<lparr>smiles := []\<rparr>) []
     = Returned [ErrorDiv (warning_prefix @ msg_empty_smiles)]
   \<and> renderMolecule None ethanol []
     = Returned [Wrapper [TextDiv ''SMILES: CCO'', Canvas False None, TextDiv ''ethanol'']]
   \<and> render quiet_host (Some ethanol_spec) []
     = Returned [Wrapper [TextDiv ''SMILES: CCO'', Canvas False None, TextDiv ''ethanol'']]"
proof -
  note t = molecule_always_visible
  have a: "renderMolecule None (ethanol\<lparr>smiles := []\<rparr>) []
     = Returned [ErrorDiv (warning_prefix @ msg_empty_smiles)]"
    using t [of "ethanol\<lparr>smiles := []\<rparr>" None "[]" quiet_host ethanol_spec] by simp
  have b: "renderMolecule None ethanol []
     = Returned [Wrapper [TextDiv ''SMILES: CCO'', Canvas False None, TextDiv ''ethanol'']]"
    using t [of ethanol None "[]" quiet_host ethanol_spec] by (simp add: ethanol_def)
  have c: "render quiet_host (Some ethanol_spec) []
     = Returned [Wrapper [TextDiv ''SMILES: CCO'', Canvas False None, TextDiv ''ethanol'']]"
    using t [of ethanol None "[]" quiet_host ethanol_spec]
    by (simp add: ethanol_def ethanol_spec_def quiet_host_def)
  from a b c show ?thesis by blast
qed

subsection \<open>The geometry renderer\<close>












lemma dangling_viewport:
  "geometry_viewport dangling =
     \<lparr>minX = Fin 0, maxX = Fin 0, minY = Fin 0, maxY = Fin 0, rangeX = Fin 4, rangeY = Fin 3,
      scale = Fin (200 / 3)\<rparr>"
  by (simp add: geometry_viewport_def dangling_def ptmap_of_def ptmap_set_def ptmap_empty_def
      math_min_def math_max_def jmin_def jmax_def jsub_def num_or_def Let_def)

text \<open>
  C8 (dangling references), evaluated at a segment from the undeclared id
  \<open>constructor\<close> to the declared point \<open>A\<close>. The lookup finds the inherited member of
  the map object, which is truthy, so the guard lets the segment through: the drawing
  has a line whose first end point is \<open>NaN, NaN\<close>.
\<close>

theorem inherited_id_is_drawn:
  "ptmap_get (ptmap_of (points dangling)) ''constructor'' = Inherited True
   \<and> segment_prims (geometry_viewport dangling) (ptmap_of (points dangling)) (''constructor'', ''A'')
       = [Line NaN NaN (Fin (140 / 3)) (Fin 240) False]
   \<and> renderGeometry dangling [] []
       = Returned [Svg 360 280
           [Marker ''arrowhead'', Rect (Fin 0) (Fin 0) (Fin 360) (Fin 280),
            Line NaN NaN (Fin (140 / 3)) (Fin 240) False,
            Circle (Fin (140 / 3)) (Fin 240) (Fin 3), Text (Fin (170 / 3)) (Fin 256) ''A'']]"
proof -
  have a: "ptmap_get (ptmap_of (points dangling)) ''constructor'' = Inherited True"
    by (simp add: dangling_def ptmap_of_def ptmap_set_def ptmap_empty_def ptmap_get_def
        object_prototype_keys_def)
  have b: "ptmap_get (ptmap_of (points dangling)) ''A'' = Own \<lparr>pid = ''A'', px = 0, py = 0\<rparr>"
    by (simp add: dangling_def ptmap_of_def ptmap_set_def ptmap_empty_def ptmap_get_def)
  have c: "segment_prims (geometry_viewport dangling) (ptmap_of (points dangling)) (''constructor'', ''A'')
       = [Line NaN NaN (Fin (140 / 3)) (Fin 240) False]"
    by (simp add: segment_prims_def a b dangling_viewport geo_tx_def geo_ty_def jsub_def)
  have p: "point_prims (geometry_viewport dangling) \<lparr>pid = ''A'', px = 0, py = 0\<rparr>
       = [Circle (Fin (140 / 3)) (Fin 240) (Fin 3), Text (Fin (170 / 3)) (Fin 256) ''A'']"
    by (simp add: point_prims_def dangling_viewport geo_tx_def geo_ty_def jsub_def jge_def Let_def)
  have s: "segments dangling = [(''constructor'', ''A'')]" "points dangling = [\<lparr>pid = ''A'', px = 0, py = 0\<rparr>]"
    "angles dangling = []" "labels dangling = []" "circles dangling = []" "auxiliary dangling = []"
    by (simp_all add: dangling_def)
  have d: "renderGeometry dangling [] []
       = Returned [Svg 360 280
           [Marker ''arrowhead'', Rect (Fin 0) (Fin 0) (Fin 360) (Fin 280),
            Line NaN NaN (Fin (140 / 3)) (Fin 240) False,
            Circle (Fin (140 / 3)) (Fin 240) (Fin 3), Text (Fin (170 / 3)) (Fin 256) ''A'']]"
    unfolding renderGeometry_def Let_def s(3-6)
    by (simp add: s(1) c [unfolded s(2)] p s(2))
  from a c d show ?thesis by blast
qed

text \<open>
  For the other ids the guard does what the claim says: an id that is not declared, is
  not a name every object inherits, in a geometry with no point called \<open>__proto__\<close>,
  looks up as \<open>undefined\<close>, and an element with such an end is left out.
\<close>

lemma foldl_ptmap_set_undefined:
  "map_of (own m) k = None \<Longrightarrow> proto m = None \<Longrightarrow> k \<notin> pid ` set ps
   \<Longrightarrow> ''__proto__'' \<notin> pid ` set ps
   \<Longrightarrow> map_of (own (foldl ptmap_set m ps)) k = None \<and> proto (foldl ptmap_set m ps) = None"
  by (induction ps arbitrary: m) (auto simp: ptmap_set_def)

lemma undeclared_plain_id:
  "k \<notin> pid ` set ps \<Longrightarrow> ''__proto__'' \<notin> pid ` set ps \<Longrightarrow> k \<notin> set object_prototype_keys
   \<Longrightarrow> ptmap_get (ptmap_of ps) k = Undefined"
  using foldl_ptmap_set_undefined [of ptmap_empty k ps]
  by (simp add: ptmap_of_def ptmap_get_def ptmap_empty_def)

lemma undefined_end_is_skipped:
  "ptmap_get m (fst seg) = Undefined \<or> ptmap_get m (snd seg) = Undefined
     \<Longrightarrow> segment_prims v m seg = []"
  "ptmap_get m (afrom a) = Undefined \<or> ptmap_get m (ato a) = Undefined \<Longrightarrow> aux_prims v m a = []"
  "ptmap_get m (lfrom l) = Undefined \<or> ptmap_get m (lto l) = Undefined \<Longrightarrow> label_prims v m l = []"
  "ptmap_get m (vertex g) = Undefined \<Longrightarrow> angle_prims v m d g = Inr []"
  by (auto simp: segment_prims_def aux_prims_def label_prims_def angle_prims_def)


subsection \<open>Coordinate mapping\<close>




















subsection \<open>The optics renderer\<close>

lemma thin_lens_sx: "optics_sx thin_lens = Fin (17 / 3)"
  by (simp add: optics_sx_def thin_lens_def range2_def jsub_def)

lemma thin_lens_tx: "optics_tx thin_lens (Fin x) = Fin (30 + (x + 30) * (17 / 3))"
  by (simp add: optics_tx_def thin_lens_sx) (simp add: thin_lens_def range2_def jsub_def)

lemma thin_lens_parts:
  "elements thin_lens =
     [\<lparr>etype = ''convex_lens'', position = Some 0, focalLength = Some 10, height = None\<rparr>,
      \<lparr>etype = ''object'', position = Some (- 20), focalLength = None, height = Some 4\<rparr>]"
  "rays thin_lens = None"
  by (simp_all add: thin_lens_def)

lemma thin_lens_fields:
  "lensX (foldl (element_step thin_lens) optics_init (elements thin_lens)) = Some (Fin 200)"
  "focalLen (foldl (element_step thin_lens) optics_init (elements thin_lens)) = Some (Fin (170 / 3))"
  "objX (foldl (element_step thin_lens) optics_init (elements thin_lens)) = Some (Fin (260 / 3))"
  "objH (foldl (element_step thin_lens) optics_init (elements thin_lens)) = Some (Fin (34 / 3))"
  by (simp_all add: thin_lens_parts element_step_def convex_step_def object_step_def
      optics_init_def thin_lens_tx thin_lens_sx field_or_def Let_def)

lemma thin_lens_image_values:
  "image_of_state (foldl (element_step thin_lens) optics_init (elements thin_lens))
     = Some (Fin (340 / 3), Fin (- (34 / 3)))"
  by (simp add: image_of_state_def thin_lens_fields image_distance_def image_height_def jsub_def)

lemma thin_lens_rays:
  "ray_prims thin_lens (foldl (element_step thin_lens) optics_init (elements thin_lens))
     = [Line (Fin (940 / 3)) (Fin 120) (Fin (940 / 3)) (Fin (394 / 3)) False,
        Text (Fin (970 / 3)) (Fin (394 / 3)) [CHR 0xE5, CHR 0x83, CHR 0x8F],
        Line (Fin (260 / 3)) (Fin (326 / 3)) (Fin 200) (Fin (326 / 3)) False,
        Line (Fin 200) (Fin (326 / 3)) (Fin (940 / 3)) (Fin (394 / 3)) False,
        Line (Fin (260 / 3)) (Fin (326 / 3)) (Fin (940 / 3)) (Fin (394 / 3)) False]"
  by (simp add: ray_prims_def thin_lens_fields thin_lens_parts(2) construction_def rays_guard_def
       image_distance_def image_height_def jsub_def jgt_def Let_def)

text \<open>
  C4, as the code has it. The construction works on canvas coordinates: with no axis
  range given one unit of the axis is \<open>sx = 340 / 60\<close> pixels, and heights are drawn at
  half that scale. For the lens of focal length 10 at 0 and the object of height 4 at
  \<open>-20\<close> the loop leaves \<open>f = 10 sx\<close>, the lens at pixel 200, the object at pixel
  \<open>200 - 20 sx\<close> and \<open>objH = 4 sx / 2\<close>; then \<open>u = 20 sx\<close>, \<open>v = f u / (u - f) = 20 sx\<close>
  and the image height is \<open>-(v / u) objH = - objH\<close>: an inverted image of the size of the
  object at twice the focal distance. In general the two formulas are the closed form
  of the thin lens, and nothing of the construction is drawn unless ray tracing is on,
  a lens and an object are present, and both \<open>|u|\<close> and \<open>|u - f|\<close> exceed one pixel.
\<close>

theorem thin_lens_construction:
  "optics_sx thin_lens = Fin (340 / 60)
   \<and> lensX (foldl (element_step thin_lens) optics_init (elements thin_lens)) = Some (Fin 200)
   \<and> focalLen (foldl (element_step thin_lens) optics_init (elements thin_lens))
        = Some (Fin (10 * (340 / 60)))
   \<and> objX (foldl (element_step thin_lens) optics_init (elements thin_lens))
        = Some (Fin (200 - 20 * (340 / 60)))
   \<and> objH (foldl (element_step thin_lens) optics_init (elements thin_lens))
        = Some (Fin (4 * (340 / 60) * 0.5))
   \<and> image_of_state (foldl (element_step thin_lens) optics_init (elements thin_lens))
        = Some (Fin (20 * (340 / 60)), Fin (- (4 * (340 / 60) * 0.5)))
   \<and> (u \<noteq> 0 \<and> u \<noteq> f \<longrightarrow>
        image_distance (Fin f) (Fin u) = Fin (f * u / (u - f))
        \<and> image_height (Fin v) (Fin u) (Fin h) = Fin (- (v / u) * h))
   \<and> rays_guard (Fin u) (Fin f) = (1 < \<bar>u\<bar> \<and> 1 < \<bar>u - f\<bar>)
   \<and> (\<not> rays_guard (jsub lx0 ox) fl \<longrightarrow> construction lx0 fl ox oh = [])
   \<and> (rays d = Some False \<or> lensX st = None \<or> focalLen st = None \<or> objX st = None \<or> objH st = None
        \<longrightarrow> ray_prims d st = [])"
proof -
  have a: "u \<noteq> 0 \<and> u \<noteq> f \<longrightarrow>
        image_distance (Fin f) (Fin u) = Fin (f * u / (u - f))
        \<and> image_height (Fin v) (Fin u) (Fin h) = Fin (- (v / u) * h)"
    by (simp add: image_distance_def image_height_def jsub_def)
  have b: "rays_guard (Fin u) (Fin f) = (1 < \<bar>u\<bar> \<and> 1 < \<bar>u - f\<bar>)"
    by (simp add: rays_guard_def jgt_def jsub_def)
  have c: "\<not> rays_guard (jsub lx0 ox) fl \<longrightarrow> construction lx0 fl ox oh = []"
    by (simp add: construction_def)
  have d: "rays d = Some False \<or> lensX st = None \<or> focalLen st = None \<or> objX st = None \<or> objH st = None
        \<longrightarrow> ray_prims d st = []"
    by (auto simp: ray_prims_def split: option.splits)
  show ?thesis
    using a b c d by (simp add: thin_lens_sx thin_lens_fields thin_lens_image_values)
qed

theorem thin_lens_construction_witness:
  "image_distance (Fin 10) (Fin 20) = Fin 20
   \<and> image_height (Fin 20) (Fin 20) (Fin 4) = Fin (- 4)
   \<and> rays_guard (Fin 20) (Fin 10)
   \<and> \<not> rays_guard (Fin 10.5) (Fin 10)
   \<and> construction (Fin 200) (Fin 10) (Fin 189.5) (Fin 4) = []
   \<and> ray_prims (thin_lens\<lparr>rays := Some False\<rparr>)
        (foldl (element_step thin_lens) optics_init (elements thin_lens)) = []"
proof -
  note t = thin_lens_construction
  have a: "image_distance (Fin 10) (Fin 20) = Fin 20
      \<and> image_height (Fin 20) (Fin 20) (Fin 4) = Fin (- 4)"
    using t [where u = 20 and f = 10 and v = 20 and h = 4] by simp
  have b: "rays_guard (Fin 20) (Fin 10)"
    using t [where u = 20 and f = 10 and v = 20 and h = 4] by simp
  have c: "\<not> rays_guard (Fin 10.5) (Fin 10)"
    using t [where u = "10.5" and f = 10] by simp
  have d: "construction (Fin 200) (Fin 10) (Fin 189.5) (Fin 4) = []"
    using t [where ?lx0.0 = "Fin 200" and ox = "Fin 189.5" and fl = "Fin 10" and oh = "Fin 4"] c
    by (simp add: jsub_def)
  have e: "ray_prims (thin_lens\<lparr>rays := Some False\<rparr>)
        (foldl (element_step thin_lens) optics_init (elements thin_lens)) = []"
    using t [where d = "thin_lens\<lparr>rays := Some False\<rparr>"
        and st = "foldl (element_step thin_lens) optics_init (elements thin_lens)"] by simp
  from a b c d e show ?thesis by blast
qed

text \<open>
  The claim of C4 as stated fails at its own example: the image distance is 20 units
  of the axis (\<open>20 sx = 340 / 3\<close> pixels), but the image height is \<open>-34 / 3\<close> pixels,
  which is neither 4 nor 4 units of the axis (\<open>4 sx = 68 / 3\<close>); it is the negative of
  the drawn height of the object.
\<close>

theorem thin_lens_height_is_negative:
  "map_option fst (image_of_state (foldl (element_step thin_lens) optics_init (elements thin_lens)))
     = Some (jmul (Fin 20) (optics_sx thin_lens))
   \<and> map_option snd (image_of_state (foldl (element_step thin_lens) optics_init (elements thin_lens)))
     = Some (Fin (- (34 / 3)))
   \<and> Fin (- (34 / 3)) \<noteq> Fin 4
   \<and> Fin (- (34 / 3)) \<noteq> jmul (Fin 4) (optics_sx thin_lens)
   \<and> objH (foldl (element_step thin_lens) optics_init (elements thin_lens)) = Some (Fin (34 / 3))"
  by (simp add: thin_lens_image_values thin_lens_sx thin_lens_fields)


subsection \<open>Curve sampling\<close>



text \<open>
  For an x-range of width 0 the step is 0 and the loop does not end: no path is returned.
\<close>


lemma sample_loop_zero_step_aux:
  assumes r: "sample_loop f d step x st = Some r"
  shows "\<not> (step = 0 \<and> x \<le> snd (range2 (xRange d) (- 5, 5)))"
proof -
  define P where "P = (\<lambda>(f :: real \<Rightarrow> jsnum) (d :: function_graph) (step :: real) x (st :: pathcmd list \<times> bool)
              (r :: pathcmd list \<times> bool).
              \<not> (step = 0 \<and> x \<le> snd (range2 (xRange d) (- 5, 5))))"
  have "P f d step x st r"
  proof (rule sample_loop.raw_induct
      [where P = P and xa = "((((f, d), step), x), st)" and y = r, simplified])
    show "sample_loop f d step x st = Some r" by (rule r)
  next
    fix g f and d :: function_graph and step x :: real and st fa
    assume ih: "\<And>f d step x st y. g f d step x st = Some y \<Longrightarrow> P f d step x st y"
      and eq: "(if x \<le> snd (range2 (xRange d) (- 5, 5))
        then let y = f x
             in if sample_skipped d y then g f d step (x + step) (fst st, False)
                else g f d step (x + step)
                      (fst st @ [(if snd st then LineTo else MoveTo) (fg_tx d (Fin x)) (fg_ty d y)],
                       True)
        else Some st) = Some fa"
    show "P f d step x st fa"
      unfolding P_def
    proof
      assume z: "step = 0 \<and> x \<le> snd (range2 (xRange d) (- 5, 5))"
      show False
      proof (cases "sample_skipped d (f x)")
        case True
        with eq z have "g f d step (x + step) (fst st, False) = Some fa" by simp
        from ih [OF this] z show False by (simp add: P_def)
      next
        case False
        with eq z have "g f d step (x + step)
            (fst st @ [(if snd st then LineTo else MoveTo) (fg_tx d (Fin x)) (fg_ty d (f x))], True)
            = Some fa" by simp
        from ih [OF this] z show False by (simp add: P_def)
      qed
    qed
  qed
  then show ?thesis by (simp add: P_def)
qed

lemma zero_width_never_returns:
  assumes "range2 (xRange d) (- 5, 5) = (a, a)"
  shows "curve_path f d = None"
proof -
  have "sample_loop f d 0 a ([], False) = None"
  proof (cases "sample_loop f d 0 a ([], False)")
    case None
    then show ?thesis .
  next
    case (Some res)
    from sample_loop_zero_step_aux [OF Some] assms show ?thesis by simp
  qed
  then show ?thesis by (simp add: curve_path_def assms)
qed




end
